theory Spec2Isabelle
  imports Main "HOL-Library.Sublist"
begin

section \<open>Values shared by the HTTP handlers\<close>

text \<open>
  The handlers answer with \<^verbatim>\<open>NextResponse.json(obj, { status })\<close>: a JSON object, kept
  here as the list of its keys and values in the order the source writes them, and an
  HTTP status (200 when the source gives none).
\<close>

datatype json = JBool bool | JNum int | JStr string | JArr "json list"

record response =
  status :: nat
  body :: "(string \<times> json) list"

definition json_response :: "(string \<times> json) list \<Rightarrow> nat \<Rightarrow> response" where
  "json_response obj st = \<lparr> status = st, body = obj \<rparr>"

definition field :: "response \<Rightarrow> string \<Rightarrow> json option" where
  "field r k = map_of (body r) k"

text \<open>
  \<^verbatim>\<open>process.env\<close>: a variable that is not set reads as \<^verbatim>\<open>undefined\<close>, here \<open>None\<close>.
\<close>

record env =
  REVALIDATION_SECRET :: "string option"
  WEBHOOK_TOKEN :: "string option"
  NODE_ENV :: "string option"

text \<open>
  JavaScript truthiness of a value of type \<^verbatim>\<open>string | null | undefined\<close>: the empty
  string, \<^verbatim>\<open>null\<close> and \<^verbatim>\<open>undefined\<close> are falsy. \<open>js_or a b\<close> is \<^verbatim>\<open>a || b\<close>.
\<close>

definition truthy :: "string option \<Rightarrow> bool" where
  "truthy v = (case v of None \<Rightarrow> False | Some s \<Rightarrow> s \<noteq> [])"

definition js_or :: "string option \<Rightarrow> string option \<Rightarrow> string option" where
  "js_or a b = (if truthy a then a else b)"

definition or_default :: "string option \<Rightarrow> string \<Rightarrow> string" where
  "or_default a d = (case a of None \<Rightarrow> d | Some s \<Rightarrow> if s = [] then d else s)"

text \<open>
  The framework's cache invalidation is outside the repository. It is a parameter of
  the model: for each call it says whether the call returns (\<open>None\<close>) or throws
  (\<open>Some m\<close>, with \<open>m\<close> the text the handler's \<^verbatim>\<open>catch\<close> reports). A handler returns
  its response together with the calls that returned, in order.
\<close>

datatype call = RevalidatePath string | RevalidateTag string | ResRevalidate string

type_synonym framework = "call \<Rightarrow> string option"

fun run_calls :: "framework \<Rightarrow> call list \<Rightarrow> string option \<times> call list" where
  "run_calls fw [] = (None, [])"
| "run_calls fw (c # cs) =
     (case fw c of
        Some m \<Rightarrow> (Some m, [])
      | None \<Rightarrow> (case run_calls fw cs of (r, performed) \<Rightarrow> (r, c # performed)))"

definition fw_never_throws :: framework where
  "fw_never_throws c = None"

definition fw_throws_on :: "call \<Rightarrow> string \<Rightarrow> framework" where
  "fw_throws_on c0 m c = (if c = c0 then Some m else None)"

text \<open>The text \<^verbatim>\<open>Token inv\<close>\<open>\<dots>\<close>\<^verbatim>\<open>lido\<close> of both routes, its accented letter in UTF-8.\<close>

definition token_invalido :: string where
  "token_invalido = ''Token inv'' @ [CHR 0xC3, CHR 0xA1] @ ''lido''"

section \<open>The revalidation endpoint (app/api/revalidate/route.ts)\<close>

text \<open>
  The request is read through \<^verbatim>\<open>new URL(request.url).searchParams\<close> only:
  \<^verbatim>\<open>get('secret')\<close> and \<^verbatim>\<open>get('path')\<close>, \<open>None\<close> when the parameter is absent.
  The route's \<^verbatim>\<open>log\<close> catches its own failures and does not bear on the response.
\<close>

record revalidate_request =
  secret :: "string option"
  path :: "string option"

definition isValidRequest :: "env \<Rightarrow> revalidate_request \<Rightarrow> bool" where
  "isValidRequest e request =
     (if \<not> truthy (REVALIDATION_SECRET e) then False
      else if \<not> truthy (secret request) then False
      else if secret request \<noteq> REVALIDATION_SECRET e then False
      else True)"

text \<open>\<open>now\<close> is the value of \<^verbatim>\<open>Date.now()\<close> when the response is built.\<close>

definition revalidate_GET ::
  "env \<Rightarrow> framework \<Rightarrow> int \<Rightarrow> revalidate_request \<Rightarrow> response \<times> call list" where
  "revalidate_GET e fw now request =
     (if \<not> isValidRequest e request
      then (json_response [(''error'', JStr token_invalido)] 401, [])
      else
        let p = or_default (path request) ''/'' in
        (case fw (RevalidatePath p) of
           None \<Rightarrow>
             (json_response
                [(''revalidated'', JBool True), (''now'', JNum now), (''path'', JStr p)] 200,
              [RevalidatePath p])
         | Some errorMessage \<Rightarrow>
             (json_response
                [(''revalidated'', JBool False), (''now'', JNum now),
                 (''error'', JStr errorMessage)] 500,
              [])))"

section \<open>The pages-router revalidation handler (pages/api/revalidate.ts)\<close>

text \<open>
  \<^verbatim>\<open>req.query.secret\<close> and \<^verbatim>\<open>req.query.path\<close>, \<open>None\<close> when absent (a parameter
  given several times, which the framework delivers as an array, is not modelled).
  The secret is compared with \<^verbatim>\<open>!==\<close> alone.
\<close>

record api_request =
  query_secret :: "string option"
  query_path :: "string option"

definition handler :: "env \<Rightarrow> framework \<Rightarrow> api_request \<Rightarrow> response \<times> call list" where
  "handler e fw req =
     (if query_secret req \<noteq> REVALIDATION_SECRET e
      then (json_response [(''message'', JStr ''Invalid token'')] 401, [])
      else if \<not> truthy (query_path req)
      then (json_response [(''message'', JStr ''Path is required'')] 400, [])
      else
        let p = or_default (query_path req) [] in
        (case fw (ResRevalidate p) of
           None \<Rightarrow>
             (json_response [(''revalidated'', JBool True), (''path'', JStr p)] 200,
              [ResRevalidate p])
         | Some err \<Rightarrow>
             (json_response
                [(''message'', JStr ''Error revalidating''), (''error'', JStr err)] 500,
              [])))"

section \<open>The CMS webhook endpoint (app/api/webhook/route.ts)\<close>

text \<open>
  The body, as the route's interface \<^verbatim>\<open>WebhookBody\<close> declares it: \<^verbatim>\<open>event\<close>,
  \<^verbatim>\<open>model\<close> and \<^verbatim>\<open>entry\<close> are optional, and of \<^verbatim>\<open>entry\<close> only \<^verbatim>\<open>slug\<close> is read.
  \<open>other_keys\<close> counts the remaining top-level keys, which matter to
  \<^verbatim>\<open>Object.keys(body).length\<close> alone.
\<close>

record WebhookEntry =
  entry_slug :: "string option"

record WebhookBody =
  event :: "string option"
  model :: "string option"
  entry :: "WebhookEntry option"
  other_keys :: nat

text \<open>
  Of the request the route reads three headers, the \<^verbatim>\<open>token\<close> query parameter and the
  JSON body. \<open>json_body\<close> is the outcome of \<^verbatim>\<open>request.json()\<close>: \<open>Inl m\<close> when it throws
  (\<open>m\<close> is \<^verbatim>\<open>String(bodyError)\<close>), and the same at the first read (on the clone) and at
  the second. This route's \<^verbatim>\<open>log\<close> appends to a file, which is taken to succeed.
\<close>

record webhook_request =
  headers :: "string \<Rightarrow> string option"
  token_param :: "string option"
  json_body :: "string + WebhookBody"

definition empty_body :: WebhookBody where
  "empty_body = \<lparr> event = None, model = None, entry = None, other_keys = 0 \<rparr>"

definition keys_length :: "WebhookBody \<Rightarrow> nat" where
  "keys_length b =
     (if event b = None then 0 else 1) + (if model b = None then 0 else 1)
     + (if entry b = None then 0 else 1) + other_keys b"

definition is_development :: "env \<Rightarrow> bool" where
  "is_development e = (NODE_ENV e = Some ''development'')"

definition validateWebhook :: "env \<Rightarrow> webhook_request \<Rightarrow> bool" where
  "validateWebhook e request =
     (let token =
            js_or (headers request ''x-webhook-token'')
              (js_or (headers request ''webhook-token'')
                 (js_or (headers request ''x-strapi-webhook-token'') (token_param request)));
          expectedToken = WEBHOOK_TOKEN e
      in if \<not> truthy expectedToken then False
         else if is_development e \<and> \<not> truthy token then True
         else if token \<noteq> expectedToken then False
         else True)"

definition paginas_revalidadas :: string where
  "paginas_revalidadas = ''P'' @ [CHR 0xC3, CHR 0xA1] @ ''ginas revalidadas''"

definition no_requiere_revalidacion :: string where
  "no_requiere_revalidacion =
     ''Evento recibido pero no requiere revalidaci'' @ [CHR 0xC3, CHR 0xB3] @ ''n''"

definition main_calls :: "call list" where
  "main_calls =
     [RevalidatePath ''/'', RevalidatePath ''/news'',
      RevalidateTag ''articles'', RevalidateTag ''home'']"

definition slug_calls :: "string \<Rightarrow> call list" where
  "slug_calls articleSlug =
     (if articleSlug \<noteq> []
      then [RevalidatePath (''/news/'' @ articleSlug), RevalidateTag (''article-'' @ articleSlug)]
      else [])"

text \<open>The outer \<^verbatim>\<open>catch\<close> of the route: whatever is thrown becomes a 500.\<close>

definition internal_error :: "string \<Rightarrow> response" where
  "internal_error errorMessage =
     json_response
       [(''error'', JStr ''Error interno del servidor''), (''details'', JStr errorMessage)] 500"

definition revalidate_then :: "framework \<Rightarrow> call list \<Rightarrow> response \<Rightarrow> response \<times> call list" where
  "revalidate_then fw calls ok_response =
     (case run_calls fw calls of
        (None, performed) \<Rightarrow> (ok_response, performed)
      | (Some errorMessage, performed) \<Rightarrow> (internal_error errorMessage, performed))"

text \<open>Lines 146 to 213 of the route: what is done once the body is in hand.\<close>

definition process_body :: "env \<Rightarrow> framework \<Rightarrow> WebhookBody \<Rightarrow> response \<times> call list" where
  "process_body e fw b =
     (let articleSlug = (case entry b of None \<Rightarrow> [] | Some en \<Rightarrow> or_default (entry_slug en) [])
      in if is_development e
         then revalidate_then fw (main_calls @ slug_calls articleSlug)
                (json_response
                   [(''success'', JBool True), (''revalidated'', JBool True),
                    (''message'', JStr (paginas_revalidadas @ '' (modo desarrollo)''))] 200)
         else if (event b = Some ''entry.create'' \<or> event b = Some ''entry.update''
                  \<or> event b = Some ''entry.publish'' \<or> event b = Some ''entry.unpublish'')
                 \<and> (model b = Some ''article'' \<or> model b = Some ''articles'')
         then revalidate_then fw (main_calls @ slug_calls articleSlug)
                (json_response
                   [(''success'', JBool True), (''revalidated'', JBool True),
                    (''message'', JStr (paginas_revalidadas @ '' exitosamente'')),
                    (''paths'',
                     JArr (if articleSlug \<noteq> []
                           then [JStr ''/'', JStr ''/news'', JStr (''/news/'' @ articleSlug)]
                           else [JStr ''/'', JStr ''/news'']))] 200)
         else (json_response
                 [(''success'', JBool True), (''message'', JStr no_requiere_revalidacion)] 200,
               []))"

definition webhook_POST :: "env \<Rightarrow> framework \<Rightarrow> webhook_request \<Rightarrow> response \<times> call list" where
  "webhook_POST e fw request =
     (let body0 = (case json_body request of Inl bodyError \<Rightarrow> empty_body | Inr b \<Rightarrow> b)
      in if \<not> validateWebhook e request
         then (json_response [(''error'', JStr token_invalido)] 401, [])
         else if keys_length body0 = 0
         then (case json_body request of
                 Inr b \<Rightarrow> process_body e fw b
               | Inl bodyError \<Rightarrow>
                   if is_development e
                   then revalidate_then fw main_calls
                          (json_response
                             [(''success'', JBool True), (''revalidated'', JBool True),
                              (''message'',
                               JStr (paginas_revalidadas @ '' (modo desarrollo, sin cuerpo)''))]
                             200)
                   else (json_response
                           [(''error'', JStr ''No se pudo leer el cuerpo de la solicitud''),
                            (''details'', JStr bodyError)] 400,
                         []))
         else process_body e fw body0)"

section \<open>The upload script (scripts/upload-to-s3.ts)\<close>

text \<open>\<^verbatim>\<open>contentType.includes(t)\<close>: \<open>t\<close> occurs in the string as a contiguous part.\<close>

fun string_includes :: "string \<Rightarrow> string \<Rightarrow> bool" where
  "string_includes [] t = (t = [])"
| "string_includes (c # cs) t = (prefix t (c # cs) \<or> string_includes cs t)"

text \<open>
  The parameters given to \<^verbatim>\<open>new Upload\<close>. The object store is a parameter of the
  model: \<open>Some err\<close> when \<^verbatim>\<open>upload.done()\<close> rejects for these parameters. So is
  \<^verbatim>\<open>mime.lookup\<close>, which gives a content type or \<^verbatim>\<open>false\<close> (\<open>None\<close>).
\<close>

record upload_params =
  Bucket :: string
  Key :: string
  Body :: string
  ContentType :: string
  CacheControl :: string

type_synonym object_store = "upload_params \<Rightarrow> string option"

record upload_config =
  BUCKET_NAME :: string
  OUT_DIR :: string
  S3_PREFIX :: string

definition upload_params_for ::
  "(string \<Rightarrow> string option) \<Rightarrow> upload_config \<Rightarrow> string \<Rightarrow> string \<Rightarrow> string \<Rightarrow> upload_params" where
  "upload_params_for mime_lookup cfg filePath fileContent s3Key =
     (let contentType = or_default (mime_lookup filePath) ''application/octet-stream''
      in \<lparr> Bucket = BUCKET_NAME cfg, Key = s3Key, Body = fileContent,
           ContentType = contentType,
           CacheControl =
             (if string_includes contentType ''image/'' then ''public, max-age=31536000, immutable''
              else if string_includes contentType ''text/html'' then ''public, max-age=0, must-revalidate''
              else ''public, max-age=604800'') \<rparr>)"

text \<open>
  \<open>uploadFileToS3\<close> returns what it throws (\<open>Some err\<close>: its \<^verbatim>\<open>catch\<close> logs and throws
  the error again) and the uploads it attempted.
\<close>

definition uploadFileToS3 ::
  "(string \<Rightarrow> string option) \<Rightarrow> object_store \<Rightarrow> upload_config \<Rightarrow> string \<Rightarrow> string \<Rightarrow> string
   \<Rightarrow> string option \<times> upload_params list" where
  "uploadFileToS3 mime_lookup store cfg filePath fileContent s3Key =
     (let params = upload_params_for mime_lookup cfg filePath fileContent s3Key
      in (store params, [params]))"

text \<open>
  What \<^verbatim>\<open>readdirSync\<close>, \<^verbatim>\<open>statSync\<close> and \<^verbatim>\<open>readFileSync\<close> find: a file with its
  content, or a directory with its entries, in the order \<^verbatim>\<open>readdirSync\<close> returns them.
  The names it returns are not empty, hold no \<^verbatim>\<open>/\<close> and are neither \<^verbatim>\<open>.\<close> nor \<^verbatim>\<open>..\<close>,
  and \<^verbatim>\<open>OUT_DIR\<close> is absolute and normalised, as \<^verbatim>\<open>path.join(process.cwd(), 'out')\<close>
  gives it. So \<^verbatim>\<open>path.join(directory, file)\<close> is the names from \<^verbatim>\<open>OUT_DIR\<close> down joined
  with \<^verbatim>\<open>/\<close>, and \<^verbatim>\<open>path.relative(OUT_DIR, filePath)\<close> is the names below \<^verbatim>\<open>OUT_DIR\<close>
  joined with \<^verbatim>\<open>/\<close>; \<open>directory\<close> is the list of the names below \<^verbatim>\<open>OUT_DIR\<close>.
\<close>

datatype dirent = File string string | Directory string "dirent list"

fun join_segments :: "string list \<Rightarrow> string" where
  "join_segments [] = []"
| "join_segments [s] = s"
| "join_segments (s # t # ts) = s @ ''/'' @ join_segments (t # ts)"

text \<open>
  \<^verbatim>\<open>path.join\<close> of POSIX, which the key goes through with \<^verbatim>\<open>S3_PREFIX\<close>: the arguments
  that are not empty are joined with \<^verbatim>\<open>/\<close> and the result is normalised. Normalising
  drops empty segments and \<^verbatim>\<open>.\<close>, lets \<^verbatim>\<open>..\<close> remove the segment before it (above the
  start, a relative path keeps the \<^verbatim>\<open>..\<close> and an absolute one drops it), and keeps a
  leading and a trailing \<^verbatim>\<open>/\<close>. \<open>normalize_segments\<close> holds the segments kept so far
  in reverse.
\<close>

fun split_on :: "char \<Rightarrow> string \<Rightarrow> string list" where
  "split_on sep [] = [[]]"
| "split_on sep (c # cs) =
     (if c = sep then [] # split_on sep cs
      else (case split_on sep cs of [] \<Rightarrow> [[c]] | s # ss \<Rightarrow> (c # s) # ss))"

fun normalize_segments :: "bool \<Rightarrow> string list \<Rightarrow> string list \<Rightarrow> string list" where
  "normalize_segments allowAboveRoot kept [] = rev kept"
| "normalize_segments allowAboveRoot kept (seg # segs) =
     (if seg = [] \<or> seg = ''.'' then normalize_segments allowAboveRoot kept segs
      else if seg = ''..''
      then (case kept of
              [] \<Rightarrow>
                normalize_segments allowAboveRoot (if allowAboveRoot then [''..''] else []) segs
            | k # ks \<Rightarrow>
                if k = ''..''
                then normalize_segments allowAboveRoot
                       (if allowAboveRoot then ''..'' # kept else kept) segs
                else normalize_segments allowAboveRoot ks segs)
      else normalize_segments allowAboveRoot (seg # kept) segs)"

definition starts_with_slash :: "string \<Rightarrow> bool" where
  "starts_with_slash p = (case p of [] \<Rightarrow> False | c # cs \<Rightarrow> c = CHR ''/'')"

definition path_normalize :: "string \<Rightarrow> string" where
  "path_normalize p =
     (if p = [] then ''.''
      else
        let isAbsolute = starts_with_slash p;
            trailingSeparator = starts_with_slash (rev p);
            res = join_segments (normalize_segments (\<not> isAbsolute) [] (split_on CHR ''/'' p))
        in if res = []
           then (if isAbsolute then ''/'' else if trailingSeparator then ''./'' else ''.'')
           else (if isAbsolute then ''/'' else []) @ res
                @ (if trailingSeparator then ''/'' else []))"

definition path_join :: "string list \<Rightarrow> string" where
  "path_join args =
     (let joined = join_segments (filter (\<lambda>arg. arg \<noteq> []) args)
      in if joined = [] then ''.'' else path_normalize joined)"

text \<open>
  \<^verbatim>\<open>path.join(S3_PREFIX, relativePath).replace(/\\/g, '/')\<close>: every backslash of the
  joined path becomes \<^verbatim>\<open>/\<close>.
\<close>

definition s3Key_of :: "upload_config \<Rightarrow> string list \<Rightarrow> string" where
  "s3Key_of cfg relativePath =
     map (\<lambda>c. if c = CHR 0x5C then CHR ''/'' else c)
       (path_join [S3_PREFIX cfg, join_segments relativePath])"

definition upload_entry ::
  "(string \<Rightarrow> string option) \<Rightarrow> upload_config \<Rightarrow> string list \<Rightarrow> string \<Rightarrow> string \<Rightarrow> upload_params" where
  "upload_entry mime_lookup cfg directory file fileContent =
     upload_params_for mime_lookup cfg
       (join_segments (OUT_DIR cfg # directory @ [file])) fileContent
       (s3Key_of cfg (directory @ [file]))"

fun uploadDirectoryToS3 ::
  "(string \<Rightarrow> string option) \<Rightarrow> object_store \<Rightarrow> upload_config \<Rightarrow> string list \<Rightarrow> dirent list
   \<Rightarrow> string option \<times> upload_params list" where
  "uploadDirectoryToS3 mime_lookup store cfg directory [] = (None, [])"
| "uploadDirectoryToS3 mime_lookup store cfg directory (Directory file sub # files) =
     (case uploadDirectoryToS3 mime_lookup store cfg (directory @ [file]) sub of
        (Some err, attempted) \<Rightarrow> (Some err, attempted)
      | (None, attempted) \<Rightarrow>
          (case uploadDirectoryToS3 mime_lookup store cfg directory files of
             (r, attempted') \<Rightarrow> (r, attempted @ attempted')))"
| "uploadDirectoryToS3 mime_lookup store cfg directory (File file fileContent # files) =
     (case uploadFileToS3 mime_lookup store cfg
             (join_segments (OUT_DIR cfg # directory @ [file])) fileContent
             (s3Key_of cfg (directory @ [file])) of
        (Some err, attempted) \<Rightarrow> (Some err, attempted)
      | (None, attempted) \<Rightarrow>
          (case uploadDirectoryToS3 mime_lookup store cfg directory files of
             (r, attempted') \<Rightarrow> (r, attempted @ attempted')))"

text \<open>The uploads of a whole listing, in the order the loop reaches them.\<close>

fun uploads_of ::
  "(string \<Rightarrow> string option) \<Rightarrow> upload_config \<Rightarrow> string list \<Rightarrow> dirent list \<Rightarrow> upload_params list" where
  "uploads_of mime_lookup cfg directory [] = []"
| "uploads_of mime_lookup cfg directory (Directory file sub # files) =
     uploads_of mime_lookup cfg (directory @ [file]) sub @ uploads_of mime_lookup cfg directory files"
| "uploads_of mime_lookup cfg directory (File file fileContent # files) =
     upload_entry mime_lookup cfg directory file fileContent
     # uploads_of mime_lookup cfg directory files"

text \<open>
  For comparison: the given uploads attempted one after the other, stopping with the
  error of the first one that the store rejects.
\<close>

fun attempt_in_order ::
  "object_store \<Rightarrow> upload_params list \<Rightarrow> string option \<times> upload_params list" where
  "attempt_in_order store [] = (None, [])"
| "attempt_in_order store (p # ps) =
     (case store p of
        Some err \<Rightarrow> (Some err, [p])
      | None \<Rightarrow> (case attempt_in_order store ps of (r, attempted) \<Rightarrow> (r, p # attempted)))"

section \<open>Fetching articles from the CMS (app/lib/api/articles.ts)\<close>

text \<open>
  An item of the CMS response, with the fields the mapping reads; any of them may be
  missing (\<open>None\<close> is \<^verbatim>\<open>undefined\<close> or \<^verbatim>\<open>null\<close>). \<open>cover_data_attributes_url\<close> is
  \<^verbatim>\<open>cover?.data?.attributes?.url\<close>, and \<open>raw_category_data\<close> says whether
  \<^verbatim>\<open>category.data\<close> is truthy.
\<close>

record RawCover =
  cover_url :: "string option"
  cover_data_attributes_url :: "string option"

record RawCategory =
  raw_category_id :: "string option"
  raw_category_name :: "string option"
  raw_category_slug :: "string option"
  raw_category_data :: bool

record RawArticle =
  raw_id :: "string option"
  raw_title :: "string option"
  raw_description :: "string option"
  raw_slug :: "string option"
  raw_content :: "string option"
  raw_publishedAt :: "string option"
  raw_cover :: "RawCover option"
  raw_category :: "RawCategory option"

text \<open>
  The local shape. A field copied from the CMS is \<open>None\<close> when the value copied is
  \<^verbatim>\<open>undefined\<close>; \<open>category = None\<close> is \<^verbatim>\<open>null\<close>.
\<close>

datatype js_date = NewDate "string option"

record Cover =
  url :: string

record Category =
  category_id :: "string option"
  category_name :: "string option"
  category_slug :: "string option"

record Article =
  article_id :: "string option"
  title :: "string option"
  description :: "string option"
  article_slug :: "string option"
  content :: "string option"
  publishedAt :: js_date
  cover :: Cover
  category :: "Category option"

text \<open>
  \<^verbatim>\<open>fetch\<close> is a parameter: for a URL, \<open>None\<close> when it rejects, else the response with
  \<^verbatim>\<open>response.ok\<close>, \<^verbatim>\<open>response.status\<close> and the outcome of \<^verbatim>\<open>response.json()\<close>:
  \<open>NotJson\<close> when that throws, \<open>JsonNull\<close> when the value is \<^verbatim>\<open>null\<close> (reading
  \<^verbatim>\<open>data.data\<close> then throws), and \<open>Data d\<close> otherwise, \<open>d\<close> being what \<^verbatim>\<open>data.data\<close>
  reads:
  \<^item> \<open>Falsy\<close>: \<^verbatim>\<open>undefined\<close>, \<^verbatim>\<open>null\<close>, \<^verbatim>\<open>false\<close>, \<^verbatim>\<open>0\<close> or the empty string;
  \<^item> \<open>Array items\<close>: an array; an item is \<open>None\<close> when it is \<^verbatim>\<open>null\<close> (reading a field
    of it throws), else the fields read from it (all missing when it is not an object);
  \<^item> \<open>NonEmptyString\<close>: a string, whose \<^verbatim>\<open>[0]\<close> is a string of one character, with none
    of the fields;
  \<^item> \<open>NumberOrTrue\<close>: a number other than 0 or \<^verbatim>\<open>true\<close>, with no \<^verbatim>\<open>length\<close>, no \<^verbatim>\<open>map\<close> and
    no \<^verbatim>\<open>[0]\<close>;
  \<^item> \<open>Object length_is_0 first\<close>: an object, with whether its \<^verbatim>\<open>length\<close> is \<^verbatim>\<open>0\<close> and
    what its member \<^verbatim>\<open>0\<close> is. No value of JSON has a function \<^verbatim>\<open>map\<close> but an array.
\<close>

datatype member = Undefined | Null | Item RawArticle

datatype cms_data =
    Falsy
  | Array "RawArticle option list"
  | NonEmptyString
  | NumberOrTrue
  | Object bool member

datatype cms_json = NotJson | JsonNull | Data cms_data

record cms_response =
  ok :: bool
  cms_status :: nat
  cms_json :: cms_json

datatype js_error = FetchRejected | HttpError nat | JsonSyntaxError | TypeError

definition copy_category :: "RawCategory \<Rightarrow> Category" where
  "copy_category c =
     \<lparr> category_id = raw_category_id c, category_name = raw_category_name c,
       category_slug = raw_category_slug c \<rparr>"

definition no_fields :: RawArticle where
  "no_fields =
     \<lparr> raw_id = None, raw_title = None, raw_description = None, raw_slug = None,
       raw_content = None, raw_publishedAt = None, raw_cover = None, raw_category = None \<rparr>"

text \<open>The callback of \<^verbatim>\<open>data.data.map\<close> in \<^verbatim>\<open>fetchArticles\<close>.\<close>

definition map_article :: "RawArticle \<Rightarrow> Article" where
  "map_article article =
     \<lparr> article_id = raw_id article, title = raw_title article,
       description = raw_description article, article_slug = raw_slug article,
       content = raw_content article, publishedAt = NewDate (raw_publishedAt article),
       cover =
         \<lparr> url = or_default (case raw_cover article of None \<Rightarrow> None | Some c \<Rightarrow> cover_url c)
                   ''/placeholder.jpg'' \<rparr>,
       category =
         (case raw_category article of None \<Rightarrow> None | Some c \<Rightarrow> Some (copy_category c)) \<rparr>"

text \<open>\<^verbatim>\<open>items.map(callback)\<close>, which throws at the first item that is \<^verbatim>\<open>null\<close>.\<close>

fun map_items :: "(RawArticle \<Rightarrow> Article) \<Rightarrow> RawArticle option list \<Rightarrow> js_error + Article list" where
  "map_items callback [] = Inr []"
| "map_items callback (None # items) = Inl TypeError"
| "map_items callback (Some article # items) =
     (case map_items callback items of
        Inl error \<Rightarrow> Inl error
      | Inr articles \<Rightarrow> Inr (callback article # articles))"

text \<open>The body of the \<^verbatim>\<open>try\<close>: \<open>Inl\<close> is what it throws.\<close>

definition fetchArticles_try ::
  "string \<Rightarrow> (string \<Rightarrow> cms_response option) \<Rightarrow> js_error + Article list" where
  "fetchArticles_try STRAPI_URL fetch =
     (case fetch (STRAPI_URL @ ''/api/articles?populate=*'') of
        None \<Rightarrow> Inl FetchRejected
      | Some response \<Rightarrow>
          if \<not> ok response then Inl (HttpError (cms_status response))
          else (case cms_json response of
                  NotJson \<Rightarrow> Inl JsonSyntaxError
                | JsonNull \<Rightarrow> Inl TypeError
                | Data (Array items) \<Rightarrow> map_items map_article items
                | Data other \<Rightarrow> Inl TypeError))"

text \<open>With its \<^verbatim>\<open>catch\<close>, which logs and returns the empty array.\<close>

definition fetchArticles ::
  "string \<Rightarrow> (string \<Rightarrow> cms_response option) \<Rightarrow> js_error + Article list" where
  "fetchArticles STRAPI_URL fetch =
     (case fetchArticles_try STRAPI_URL fetch of
        Inl error \<Rightarrow> Inr []
      | Inr articles \<Rightarrow> Inr articles)"

text \<open>The object literal returned by \<^verbatim>\<open>fetchArticleBySlug\<close>.\<close>

definition map_article_by_slug :: "RawArticle \<Rightarrow> Article" where
  "map_article_by_slug article =
     \<lparr> article_id = raw_id article, title = raw_title article,
       description = raw_description article, article_slug = raw_slug article,
       content = raw_content article, publishedAt = NewDate (raw_publishedAt article),
       cover =
         \<lparr> url = or_default
                   (js_or (case raw_cover article of None \<Rightarrow> None | Some c \<Rightarrow> cover_url c)
                      (case raw_cover article of None \<Rightarrow> None
                       | Some c \<Rightarrow> cover_data_attributes_url c))
                   ''/placeholder.jpg'' \<rparr>,
       category =
         (case raw_category article of
            None \<Rightarrow> None
          | Some c \<Rightarrow> if raw_category_data c then Some (copy_category c) else None) \<rparr>"

definition fetchArticleBySlug_try ::
  "string \<Rightarrow> (string \<Rightarrow> cms_response option) \<Rightarrow> string \<Rightarrow> js_error + Article option" where
  "fetchArticleBySlug_try STRAPI_URL fetch slug =
     (case fetch (STRAPI_URL @ ''/api/articles?filters[slug][$eq]='' @ slug @ ''&populate=*'') of
        None \<Rightarrow> Inl FetchRejected
      | Some response \<Rightarrow>
          if \<not> ok response then Inl (HttpError (cms_status response))
          else (case cms_json response of
                  NotJson \<Rightarrow> Inl JsonSyntaxError
                | JsonNull \<Rightarrow> Inl TypeError
                | Data Falsy \<Rightarrow> Inr None
                | Data (Array []) \<Rightarrow> Inr None
                | Data (Array (None # rest)) \<Rightarrow> Inl TypeError
                | Data (Array (Some article # rest)) \<Rightarrow> Inr (Some (map_article_by_slug article))
                | Data NonEmptyString \<Rightarrow> Inr (Some (map_article_by_slug no_fields))
                | Data NumberOrTrue \<Rightarrow> Inl TypeError
                | Data (Object length_is_0 first) \<Rightarrow>
                    if length_is_0 then Inr None
                    else (case first of
                            Undefined \<Rightarrow> Inl TypeError
                          | Null \<Rightarrow> Inl TypeError
                          | Item article \<Rightarrow> Inr (Some (map_article_by_slug article)))))"

definition fetchArticleBySlug ::
  "string \<Rightarrow> (string \<Rightarrow> cms_response option) \<Rightarrow> string \<Rightarrow> js_error + Article option" where
  "fetchArticleBySlug STRAPI_URL fetch slug =
     (case fetchArticleBySlug_try STRAPI_URL fetch slug of
        Inl error \<Rightarrow> Inr None
      | Inr found \<Rightarrow> Inr found)"

section \<open>Concrete inputs\<close>

definition env_production :: env where
  "env_production =
     \<lparr> REVALIDATION_SECRET = Some ''s3cr3t'', WEBHOOK_TOKEN = Some ''t0k3n'',
       NODE_ENV = Some ''production'' \<rparr>"

definition env_unconfigured :: env where
  "env_unconfigured =
     \<lparr> REVALIDATION_SECRET = None, WEBHOOK_TOKEN = None, NODE_ENV = Some ''development'' \<rparr>"

definition single_header :: "string \<Rightarrow> string \<Rightarrow> string \<Rightarrow> string option" where
  "single_header name v h = (if h = name then Some v else None)"

definition webhook_request_for :: "string \<Rightarrow> string \<Rightarrow> string \<Rightarrow> webhook_request" where
  "webhook_request_for ev m s =
     \<lparr> headers = single_header ''x-webhook-token'' ''t0k3n'', token_param = None,
       json_body = Inr \<lparr> event = Some ev, model = Some m,
                         entry = Some \<lparr> entry_slug = Some s \<rparr>, other_keys = 0 \<rparr> \<rparr>"

text \<open>
  A fragment of the content-type table behind \<^verbatim>\<open>mime.lookup\<close>, an export directory
  with its names in the sorted order \<^verbatim>\<open>readdirSync\<close> returns, uploaded under the prefix
  \<^verbatim>\<open>site/\<close>, an object store that rejects one key, and CMS responses.
\<close>

definition sample_mime :: "string \<Rightarrow> string option" where
  "sample_mime filePath =
     (if suffix ''.html'' filePath then Some ''text/html''
      else if suffix ''.png'' filePath then Some ''image/png''
      else if suffix ''.js'' filePath then Some ''application/javascript''
      else None)"

definition sample_config :: upload_config where
  "sample_config =
     \<lparr> BUCKET_NAME = ''site-bucket'', OUT_DIR = ''/app/out'', S3_PREFIX = ''site/'' \<rparr>"

definition store_rejects :: "string \<Rightarrow> string \<Rightarrow> object_store" where
  "store_rejects k err p = (if Key p = k then Some err else None)"

definition sample_listing :: "dirent list" where
  "sample_listing =
     [File ''about.html'' ''<html></html>'',
      Directory ''img'' [File ''logo.png'' ''PNG''],
      File ''index.html'' ''<html></html>'']"

definition fetch_always :: "cms_response \<Rightarrow> string \<Rightarrow> cms_response option" where
  "fetch_always response u = Some response"

definition cms_ok_with :: "RawArticle list \<Rightarrow> cms_response" where
  "cms_ok_with items =
     \<lparr> ok = True, cms_status = 200, cms_json = Data (Array (map Some items)) \<rparr>"

definition nested_category_article :: RawArticle where
  "nested_category_article =
     \<lparr> raw_id = Some ''7'', raw_title = Some ''Title'', raw_description = None,
       raw_slug = Some ''x'', raw_content = None,
       raw_publishedAt = Some ''2024-01-01T00:00:00.000Z'',
       raw_cover = Some \<lparr> cover_url = None, cover_data_attributes_url = Some ''/uploads/c.jpg'' \<rparr>,
       raw_category =
         Some \<lparr> raw_category_id = None, raw_category_name = None, raw_category_slug = None,
                raw_category_data = True \<rparr> \<rparr>"

section \<open>Properties of the revalidation endpoint\<close>

lemma run_calls_no_throw: "\<forall>c \<in> set cs. fw c = None \<Longrightarrow> run_calls fw cs = (None, cs)"
  by (induction cs) auto

lemma run_calls_first_throw:
  assumes "\<forall>b \<in> set before. fw b = None" and "fw c = Some m"
  shows "run_calls fw (before @ c # after) = (Some m, before)"
  using assms by (induction before) auto

text \<open>
  Claim C2. A GET whose \<^verbatim>\<open>secret\<close> parameter is absent or is not the configured
  \<^verbatim>\<open>REVALIDATION_SECRET\<close> is answered with status 401; the response does not carry
  \<^verbatim>\<open>revalidated: true\<close> and no revalidation call is made, whatever the framework and
  the clock do.
\<close>

theorem revalidate_GET_rejects_bad_secret:
  assumes "secret request = None \<or> secret request \<noteq> REVALIDATION_SECRET e"
  shows "status (fst (revalidate_GET e fw now request)) = 401
         \<and> field (fst (revalidate_GET e fw now request)) ''revalidated'' \<noteq> Some (JBool True)
         \<and> snd (revalidate_GET e fw now request) = []"
proof -
  from assms have "\<not> isValidRequest e request"
    by (auto simp: isValidRequest_def truthy_def)
  then show ?thesis
    by (simp add: revalidate_GET_def json_response_def field_def)
qed

theorem revalidate_GET_rejects_bad_secret_witness:
  "(secret \<lparr> secret = Some ''wrong'', path = Some ''/news'' \<rparr> = None
     \<or> secret \<lparr> secret = Some ''wrong'', path = Some ''/news'' \<rparr>
         \<noteq> REVALIDATION_SECRET env_production)
   \<and> status (fst (revalidate_GET env_production fw_never_throws 0
                     \<lparr> secret = Some ''wrong'', path = Some ''/news'' \<rparr>)) = 401
   \<and> field (fst (revalidate_GET env_production fw_never_throws 0
                    \<lparr> secret = Some ''wrong'', path = Some ''/news'' \<rparr>)) ''revalidated''
       \<noteq> Some (JBool True)"
proof -
  have h: "secret \<lparr> secret = Some ''wrong'', path = Some ''/news'' \<rparr> = None
     \<or> secret \<lparr> secret = Some ''wrong'', path = Some ''/news'' \<rparr>
         \<noteq> REVALIDATION_SECRET env_production"
    by (simp add: env_production_def)
  show ?thesis
    using h revalidate_GET_rejects_bad_secret [OF h, of fw_never_throws 0] by simp
qed

text \<open>
  Claim C3, as the code has it. The path echoed is \<^verbatim>\<open>searchParams.get('path') || '/'\<close>, so
  an empty \<^verbatim>\<open>path\<close> parameter comes back as \<^verbatim>\<open>/\<close>: the request
  \<^verbatim>\<open>?secret=s3cr3t&path=\<close> is answered with \<^verbatim>\<open>revalidated: true\<close> and \<^verbatim>\<open>path: "/"\<close>.
\<close>

theorem revalidate_GET_empty_path_counterexample:
  "secret \<lparr> secret = Some ''s3cr3t'', path = Some [] \<rparr> = REVALIDATION_SECRET env_production
   \<and> fw_never_throws (RevalidatePath ''/'') = None
   \<and> field (fst (revalidate_GET env_production fw_never_throws 0
                    \<lparr> secret = Some ''s3cr3t'', path = Some [] \<rparr>)) ''revalidated''
       = Some (JBool True)
   \<and> field (fst (revalidate_GET env_production fw_never_throws 0
                    \<lparr> secret = Some ''s3cr3t'', path = Some [] \<rparr>)) ''path''
       = Some (JStr ''/'')
   \<and> field (fst (revalidate_GET env_production fw_never_throws 0
                    \<lparr> secret = Some ''s3cr3t'', path = Some [] \<rparr>)) ''path''
       \<noteq> Some (JStr [])"
  by (simp add: revalidate_GET_def isValidRequest_def truthy_def or_default_def
      env_production_def fw_never_throws_def json_response_def field_def Let_def)

text \<open>
  Claim C3, amended. For a secret equal to the configured (set and non-empty)
  \<^verbatim>\<open>REVALIDATION_SECRET\<close> and a non-empty path parameter \<open>p\<close>, when the framework's
  \<^verbatim>\<open>revalidatePath(p)\<close> returns, the response is 200 with \<^verbatim>\<open>revalidated: true\<close>, the clock's \<^verbatim>\<open>now\<close> and \<^verbatim>\<open>path\<close> equal to \<open>p\<close>, and
  \<open>p\<close> is the one path revalidated.
\<close>

theorem revalidate_GET_echoes_path:
  assumes "truthy (REVALIDATION_SECRET e)" and "secret request = REVALIDATION_SECRET e"
    and "path request = Some p" and "p \<noteq> []"
    and "fw (RevalidatePath p) = None"
  shows "revalidate_GET e fw now request =
           (json_response
              [(''revalidated'', JBool True), (''now'', JNum now), (''path'', JStr p)] 200,
            [RevalidatePath p])"
  using assms
  by (simp add: revalidate_GET_def isValidRequest_def truthy_def or_default_def)

text \<open>A valid request with a non-empty path, at \<^verbatim>\<open>?secret=s3cr3t&path=/news/x\<close>.\<close>

theorem revalidate_GET_echoes_path_witness:
  "truthy (REVALIDATION_SECRET env_production)
   \<and> secret \<lparr> secret = Some ''s3cr3t'', path = Some ''/news/x'' \<rparr>
       = REVALIDATION_SECRET env_production
   \<and> path \<lparr> secret = Some ''s3cr3t'', path = Some ''/news/x'' \<rparr> = Some ''/news/x''
   \<and> ''/news/x'' \<noteq> []
   \<and> fw_never_throws (RevalidatePath ''/news/x'') = None
   \<and> field (fst (revalidate_GET env_production fw_never_throws 1700000000000
                    \<lparr> secret = Some ''s3cr3t'', path = Some ''/news/x'' \<rparr>)) ''path''
       = Some (JStr ''/news/x'')
   \<and> field (fst (revalidate_GET env_production fw_never_throws 1700000000000
                    \<lparr> secret = Some ''s3cr3t'', path = Some ''/news/x'' \<rparr>)) ''revalidated''
       = Some (JBool True)"
proof -
  have h1: "truthy (REVALIDATION_SECRET env_production)
     \<and> secret \<lparr> secret = Some ''s3cr3t'', path = Some ''/news/x'' \<rparr>
         = REVALIDATION_SECRET env_production"
    by (simp add: env_production_def truthy_def)
  have h2: "fw_never_throws (RevalidatePath ''/news/x'') = None"
    by (simp add: fw_never_throws_def)
  show ?thesis
    using h1 h2
      revalidate_GET_echoes_path [of env_production
        "\<lparr> secret = Some ''s3cr3t'', path = Some ''/news/x'' \<rparr>" "''/news/x''"
        fw_never_throws 1700000000000]
    by (simp add: json_response_def field_def)
qed

text \<open>
  Claim C4, as the code has it. The app-router endpoint does not reject a request that has
  a valid secret and no \<^verbatim>\<open>path\<close>: it falls back to \<^verbatim>\<open>/\<close>, revalidates it and answers
  200 with \<^verbatim>\<open>revalidated: true\<close>.
\<close>

theorem revalidate_GET_missing_path_counterexample:
  "isValidRequest env_production \<lparr> secret = Some ''s3cr3t'', path = None \<rparr>
   \<and> path \<lparr> secret = Some ''s3cr3t'', path = None \<rparr> = None
   \<and> status (fst (revalidate_GET env_production fw_never_throws 0
                     \<lparr> secret = Some ''s3cr3t'', path = None \<rparr>)) = 200
   \<and> field (fst (revalidate_GET env_production fw_never_throws 0
                    \<lparr> secret = Some ''s3cr3t'', path = None \<rparr>)) ''revalidated''
       = Some (JBool True)
   \<and> snd (revalidate_GET env_production fw_never_throws 0
             \<lparr> secret = Some ''s3cr3t'', path = None \<rparr>) = [RevalidatePath ''/'']"
  by (simp add: revalidate_GET_def isValidRequest_def truthy_def or_default_def
      env_production_def fw_never_throws_def json_response_def field_def Let_def)

text \<open>
  Claim C4, amended. With a valid secret and no \<^verbatim>\<open>path\<close> parameter, the app-router
  endpoint revalidates the default path \<^verbatim>\<open>/\<close>: 200 with
  \<^verbatim>\<open>revalidated: true\<close> and \<^verbatim>\<open>path: "/"\<close> when the framework call returns, 500 with
  \<^verbatim>\<open>revalidated: false\<close> when it throws. The pages-router handler rejects the same
  request with 400 \<^verbatim>\<open>Path is required\<close> and makes no revalidation call.
\<close>

theorem missing_path_default_or_rejection:
  assumes "isValidRequest e request" and "path request = None"
    and "query_secret req = REVALIDATION_SECRET e" and "query_path req = None"
  shows "revalidate_GET e fw now request =
           (case fw (RevalidatePath ''/'') of
              None \<Rightarrow>
                (json_response
                   [(''revalidated'', JBool True), (''now'', JNum now), (''path'', JStr ''/'')]
                   200,
                 [RevalidatePath ''/''])
            | Some errorMessage \<Rightarrow>
                (json_response
                   [(''revalidated'', JBool False), (''now'', JNum now),
                    (''error'', JStr errorMessage)] 500,
                 []))
         \<and> handler e fw req =
             (json_response [(''message'', JStr ''Path is required'')] 400, [])"
  using assms
  by (simp add: revalidate_GET_def truthy_def or_default_def handler_def Let_def)

theorem missing_path_default_or_rejection_witness:
  "isValidRequest env_production \<lparr> secret = Some ''s3cr3t'', path = None \<rparr>
   \<and> path \<lparr> secret = Some ''s3cr3t'', path = None \<rparr> = None
   \<and> query_secret \<lparr> query_secret = Some ''s3cr3t'', query_path = None \<rparr>
       = REVALIDATION_SECRET env_production
   \<and> query_path \<lparr> query_secret = Some ''s3cr3t'', query_path = None \<rparr> = None
   \<and> status (fst (handler env_production fw_never_throws
                     \<lparr> query_secret = Some ''s3cr3t'', query_path = None \<rparr>)) = 400
   \<and> snd (handler env_production fw_never_throws
             \<lparr> query_secret = Some ''s3cr3t'', query_path = None \<rparr>) = []
   \<and> field (fst (revalidate_GET env_production fw_never_throws 0
                    \<lparr> secret = Some ''s3cr3t'', path = None \<rparr>)) ''path'' = Some (JStr ''/'')"
proof -
  have h1: "isValidRequest env_production \<lparr> secret = Some ''s3cr3t'', path = None \<rparr>"
    by (simp add: isValidRequest_def env_production_def truthy_def)
  have h2: "query_secret \<lparr> query_secret = Some ''s3cr3t'', query_path = None \<rparr>
       = REVALIDATION_SECRET env_production"
    by (simp add: env_production_def)
  show ?thesis
    using h1 h2
      missing_path_default_or_rejection [of env_production
        "\<lparr> secret = Some ''s3cr3t'', path = None \<rparr>"
        "\<lparr> query_secret = Some ''s3cr3t'', query_path = None \<rparr>" fw_never_throws 0]
    by (simp add: json_response_def field_def fw_never_throws_def)
qed

text \<open>
  Claim C10. Both token checks fail closed. With \<^verbatim>\<open>REVALIDATION_SECRET\<close> unset,
  \<open>isValidRequest\<close> is false and the endpoint answers 401, whatever secret the request
  carries. With \<^verbatim>\<open>WEBHOOK_TOKEN\<close> unset, \<open>validateWebhook\<close> is false whatever token the
  request carries and whatever \<^verbatim>\<open>NODE_ENV\<close> is, development included.
\<close>

theorem unset_tokens_fail_closed:
  "(REVALIDATION_SECRET e = None \<longrightarrow>
      \<not> isValidRequest e request \<and> status (fst (revalidate_GET e fw now request)) = 401)
   \<and> (WEBHOOK_TOKEN e = None \<longrightarrow> \<not> validateWebhook e wrequest)"
  by (simp add: isValidRequest_def validateWebhook_def truthy_def revalidate_GET_def
      json_response_def)

theorem unset_tokens_fail_closed_witness:
  "REVALIDATION_SECRET env_unconfigured = None \<and> WEBHOOK_TOKEN env_unconfigured = None
   \<and> NODE_ENV env_unconfigured = Some ''development''
   \<and> \<not> isValidRequest env_unconfigured \<lparr> secret = Some ''s3cr3t'', path = Some ''/'' \<rparr>
   \<and> status (fst (revalidate_GET env_unconfigured fw_never_throws 0
                     \<lparr> secret = Some ''s3cr3t'', path = Some ''/'' \<rparr>)) = 401
   \<and> \<not> validateWebhook env_unconfigured (webhook_request_for ''entry.publish'' ''article'' ''x'')"
proof -
  have h: "REVALIDATION_SECRET env_unconfigured = None \<and> WEBHOOK_TOKEN env_unconfigured = None
     \<and> NODE_ENV env_unconfigured = Some ''development''"
    by (simp add: env_unconfigured_def)
  show ?thesis
    using h unset_tokens_fail_closed [of env_unconfigured
        "\<lparr> secret = Some ''s3cr3t'', path = Some ''/'' \<rparr>" fw_never_throws 0
        "webhook_request_for ''entry.publish'' ''article'' ''x''"]
    by simp
qed

section \<open>Properties of the webhook endpoint\<close>

lemma webhook_POST_parsed:
  assumes "validateWebhook e request" and "json_body request = Inr b"
  shows "webhook_POST e fw request = process_body e fw b"
  using assms by (simp add: webhook_POST_def)

lemma process_body_article:
  assumes "\<not> is_development e"
    and "event b = Some ev"
    and "ev = ''entry.create'' \<or> ev = ''entry.update'' \<or> ev = ''entry.publish''
         \<or> ev = ''entry.unpublish''"
    and "model b = Some ''article''"
    and "entry b = Some en" and "entry_slug en = Some s" and "s \<noteq> []"
  shows "process_body e fw b =
           revalidate_then fw (main_calls @ slug_calls s)
             (json_response
                [(''success'', JBool True), (''revalidated'', JBool True),
                 (''message'', JStr (paginas_revalidadas @ '' exitosamente'')),
                 (''paths'', JArr [JStr ''/'', JStr ''/news'', JStr (''/news/'' @ s)])] 200)"
  using assms by (auto simp: process_body_def or_default_def)

lemma revalidate_then_no_throw:
  assumes "\<forall>c \<in> set calls. fw c = None"
  shows "revalidate_then fw calls ok_response = (ok_response, calls)"
  using run_calls_no_throw [OF assms] by (simp add: revalidate_then_def)

lemma revalidate_then_first_throw:
  assumes "\<forall>b \<in> set before. fw b = None" and "fw c = Some m"
  shows "revalidate_then fw (before @ c # after) ok_response =
           (json_response
              [(''error'', JStr ''Error interno del servidor''), (''details'', JStr m)] 500,
            before)"
  using run_calls_first_throw [OF assms]
  by (simp add: revalidate_then_def internal_error_def)

lemma validate_fixture:
  "validateWebhook env_production (webhook_request_for ev m s)"
  by (simp add: validateWebhook_def env_production_def webhook_request_for_def
      single_header_def js_or_def truthy_def is_development_def)

text \<open>
  Claim C1, as the code has it. The revalidation calls are made inside the route's
  \<^verbatim>\<open>try\<close>: when one of them throws, the \<^verbatim>\<open>catch\<close> answers 500 with \<^verbatim>\<open>error\<close> and
  \<^verbatim>\<open>details\<close>, and the response has neither \<^verbatim>\<open>revalidated\<close> nor \<^verbatim>\<open>paths\<close>. Here
  \<^verbatim>\<open>revalidatePath('/')\<close> throws on a valid \<^verbatim>\<open>entry.publish\<close> of the article \<^verbatim>\<open>x\<close>.
\<close>

theorem webhook_POST_framework_throws_counterexample:
  "validateWebhook env_production (webhook_request_for ''entry.publish'' ''article'' ''x'')
   \<and> NODE_ENV env_production = Some ''production''
   \<and> status (fst (webhook_POST env_production
                     (fw_throws_on (RevalidatePath ''/'') ''revalidatePath failed'')
                     (webhook_request_for ''entry.publish'' ''article'' ''x''))) = 500
   \<and> field (fst (webhook_POST env_production
                    (fw_throws_on (RevalidatePath ''/'') ''revalidatePath failed'')
                    (webhook_request_for ''entry.publish'' ''article'' ''x''))) ''revalidated''
       = None
   \<and> field (fst (webhook_POST env_production
                    (fw_throws_on (RevalidatePath ''/'') ''revalidatePath failed'')
                    (webhook_request_for ''entry.publish'' ''article'' ''x''))) ''paths''
       = None"
proof -
  have v: "validateWebhook env_production (webhook_request_for ''entry.publish'' ''article'' ''x'')"
    by (rule validate_fixture)
  have "webhook_POST env_production (fw_throws_on (RevalidatePath ''/'') ''revalidatePath failed'')
          (webhook_request_for ''entry.publish'' ''article'' ''x'')
        = process_body env_production (fw_throws_on (RevalidatePath ''/'') ''revalidatePath failed'')
            \<lparr> event = Some ''entry.publish'', model = Some ''article'',
              entry = Some \<lparr> entry_slug = Some ''x'' \<rparr>, other_keys = 0 \<rparr>"
    by (rule webhook_POST_parsed [OF v]) (simp add: webhook_request_for_def)
  also have "\<dots> = (internal_error ''revalidatePath failed'', [])"
    by (simp add: process_body_def is_development_def env_production_def revalidate_then_def
        main_calls_def slug_calls_def fw_throws_on_def or_default_def)
  finally show ?thesis
    using v by (simp add: internal_error_def json_response_def field_def env_production_def)
qed

text \<open>
  Claim C1, amended. Outside development mode, for a request that passes
  \<open>validateWebhook\<close> and whose body has one of the four events, the model \<^verbatim>\<open>article\<close>
  and a non-empty \<^verbatim>\<open>entry.slug\<close> \<open>s\<close>, the handler makes six revalidation calls in
  order: the paths \<^verbatim>\<open>/\<close> and \<^verbatim>\<open>/news\<close>, the tags \<^verbatim>\<open>articles\<close> and \<^verbatim>\<open>home\<close>, the path
  \<^verbatim>\<open>/news/\<close>\<open>s\<close> and the tag \<^verbatim>\<open>article-\<close>\<open>s\<close>. When none of them throws, the response is
  200 with \<^verbatim>\<open>success: true\<close>, \<^verbatim>\<open>revalidated: true\<close> and \<^verbatim>\<open>paths\<close> equal to \<^verbatim>\<open>/\<close>,
  \<^verbatim>\<open>/news\<close>, \<^verbatim>\<open>/news/\<close>\<open>s\<close>, and all six calls are made. When one of them throws, \<open>c\<close>
  being the first that does and \<open>m\<close> what it throws, the response is 500 with the
  \<^verbatim>\<open>error\<close> text of the route and \<^verbatim>\<open>details\<close> equal to \<open>m\<close>, without \<^verbatim>\<open>revalidated\<close> or
  \<^verbatim>\<open>paths\<close>, and the calls made are those before \<open>c\<close>.
\<close>

theorem webhook_POST_article_event:
  assumes "validateWebhook e request" and "NODE_ENV e \<noteq> Some ''development''"
    and "json_body request = Inr b"
    and "event b = Some ev"
    and "ev = ''entry.create'' \<or> ev = ''entry.update'' \<or> ev = ''entry.publish''
         \<or> ev = ''entry.unpublish''"
    and "model b = Some ''article''"
    and "entry b = Some en" and "entry_slug en = Some s" and "s \<noteq> []"
  shows "((\<forall>c \<in> set (main_calls @ slug_calls s). fw c = None) \<longrightarrow>
            status (fst (webhook_POST e fw request)) = 200
            \<and> field (fst (webhook_POST e fw request)) ''success'' = Some (JBool True)
            \<and> field (fst (webhook_POST e fw request)) ''revalidated'' = Some (JBool True)
            \<and> field (fst (webhook_POST e fw request)) ''paths''
                = Some (JArr [JStr ''/'', JStr ''/news'', JStr (''/news/'' @ s)])
            \<and> snd (webhook_POST e fw request)
                = [RevalidatePath ''/'', RevalidatePath ''/news'', RevalidateTag ''articles'',
                   RevalidateTag ''home'', RevalidatePath (''/news/'' @ s),
                   RevalidateTag (''article-'' @ s)])
         \<and> ([RevalidatePath ''/'', RevalidatePath ''/news'', RevalidateTag ''articles'',
              RevalidateTag ''home'', RevalidatePath (''/news/'' @ s),
              RevalidateTag (''article-'' @ s)] = before @ c # after
             \<and> (\<forall>b \<in> set before. fw b = None) \<and> fw c = Some m \<longrightarrow>
               status (fst (webhook_POST e fw request)) = 500
               \<and> field (fst (webhook_POST e fw request)) ''error''
                   = Some (JStr ''Error interno del servidor'')
               \<and> field (fst (webhook_POST e fw request)) ''details'' = Some (JStr m)
               \<and> field (fst (webhook_POST e fw request)) ''success'' = None
               \<and> field (fst (webhook_POST e fw request)) ''revalidated'' = None
               \<and> field (fst (webhook_POST e fw request)) ''paths'' = None
               \<and> snd (webhook_POST e fw request) = before)"
proof -
  let ?calls = "[RevalidatePath ''/'', RevalidatePath ''/news'', RevalidateTag ''articles'',
                 RevalidateTag ''home'', RevalidatePath (''/news/'' @ s),
                 RevalidateTag (''article-'' @ s)]"
  let ?ok = "json_response
               [(''success'', JBool True), (''revalidated'', JBool True),
                (''message'', JStr (paginas_revalidadas @ '' exitosamente'')),
                (''paths'', JArr [JStr ''/'', JStr ''/news'', JStr (''/news/'' @ s)])] 200"
  from assms(2) have dev: "\<not> is_development e"
    by (simp add: is_development_def)
  have calls: "main_calls @ slug_calls s = ?calls"
    using assms(9) by (simp add: main_calls_def slug_calls_def)
  have "webhook_POST e fw request = process_body e fw b"
    using assms(1,3) by (rule webhook_POST_parsed)
  also have "\<dots> = revalidate_then fw (main_calls @ slug_calls s) ?ok"
    using dev assms(4-9) by (rule process_body_article)
  finally have run: "webhook_POST e fw request = revalidate_then fw ?calls ?ok"
    by (simp only: calls)
  have returns: "\<forall>c \<in> set ?calls. fw c = None \<Longrightarrow> webhook_POST e fw request = (?ok, ?calls)"
    using run by (simp only: revalidate_then_no_throw)
  have throws: "webhook_POST e fw request =
                  (json_response
                     [(''error'', JStr ''Error interno del servidor''), (''details'', JStr m)] 500,
                   before)"
    if "?calls = before @ c # after" and "\<forall>b \<in> set before. fw b = None" and "fw c = Some m"
    using that run by (simp only: revalidate_then_first_throw)
  show ?thesis
  proof (intro conjI impI)
    assume "\<forall>c \<in> set (main_calls @ slug_calls s). fw c = None"
    then have r: "webhook_POST e fw request = (?ok, ?calls)"
      using returns by (simp only: calls)
    show "status (fst (webhook_POST e fw request)) = 200"
      and "field (fst (webhook_POST e fw request)) ''success'' = Some (JBool True)"
      and "field (fst (webhook_POST e fw request)) ''revalidated'' = Some (JBool True)"
      and "field (fst (webhook_POST e fw request)) ''paths''
             = Some (JArr [JStr ''/'', JStr ''/news'', JStr (''/news/'' @ s)])"
      and "snd (webhook_POST e fw request) = ?calls"
      by (simp_all add: r json_response_def field_def)
  next
    assume "?calls = before @ c # after \<and> (\<forall>b \<in> set before. fw b = None) \<and> fw c = Some m"
    then have r: "webhook_POST e fw request =
                  (json_response
                     [(''error'', JStr ''Error interno del servidor''), (''details'', JStr m)] 500,
                   before)"
      using throws by blast
    show "status (fst (webhook_POST e fw request)) = 500"
      and "field (fst (webhook_POST e fw request)) ''error''
             = Some (JStr ''Error interno del servidor'')"
      and "field (fst (webhook_POST e fw request)) ''details'' = Some (JStr m)"
      and "field (fst (webhook_POST e fw request)) ''success'' = None"
      and "field (fst (webhook_POST e fw request)) ''revalidated'' = None"
      and "field (fst (webhook_POST e fw request)) ''paths'' = None"
      and "snd (webhook_POST e fw request) = before"
      by (simp_all add: r json_response_def field_def)
  qed
qed

text \<open>
  At \<^verbatim>\<open>entry.publish\<close> of the article \<^verbatim>\<open>x\<close>: with a framework that never throws, and
  with one whose \<^verbatim>\<open>revalidateTag('articles')\<close>, the third call, throws.
\<close>

theorem webhook_POST_article_event_witness:
  "validateWebhook env_production (webhook_request_for ''entry.publish'' ''article'' ''x'')
   \<and> NODE_ENV env_production \<noteq> Some ''development''
   \<and> map fw_never_throws (main_calls @ slug_calls ''x'') = [None, None, None, None, None, None]
   \<and> field (fst (webhook_POST env_production fw_never_throws
                    (webhook_request_for ''entry.publish'' ''article'' ''x''))) ''paths''
       = Some (JArr [JStr ''/'', JStr ''/news'', JStr ''/news/x''])
   \<and> field (fst (webhook_POST env_production fw_never_throws
                    (webhook_request_for ''entry.publish'' ''article'' ''x''))) ''revalidated''
       = Some (JBool True)
   \<and> map (fw_throws_on (RevalidateTag ''articles'') ''tag store down'')
         [RevalidatePath ''/'', RevalidatePath ''/news''] = [None, None]
   \<and> fw_throws_on (RevalidateTag ''articles'') ''tag store down'' (RevalidateTag ''articles'')
       = Some ''tag store down''
   \<and> status (fst (webhook_POST env_production
                     (fw_throws_on (RevalidateTag ''articles'') ''tag store down'')
                     (webhook_request_for ''entry.publish'' ''article'' ''x''))) = 500
   \<and> field (fst (webhook_POST env_production
                    (fw_throws_on (RevalidateTag ''articles'') ''tag store down'')
                    (webhook_request_for ''entry.publish'' ''article'' ''x''))) ''details''
       = Some (JStr ''tag store down'')
   \<and> snd (webhook_POST env_production
             (fw_throws_on (RevalidateTag ''articles'') ''tag store down'')
             (webhook_request_for ''entry.publish'' ''article'' ''x''))
       = [RevalidatePath ''/'', RevalidatePath ''/news'']"
proof -
  have v: "validateWebhook env_production (webhook_request_for ''entry.publish'' ''article'' ''x'')"
    by (rule validate_fixture)
  have p: "NODE_ENV env_production \<noteq> Some ''development''"
    by (simp add: env_production_def)
  have m: "map fw_never_throws (main_calls @ slug_calls ''x'') = [None, None, None, None, None, None]"
    by (simp add: fw_never_throws_def main_calls_def slug_calls_def)
  have f: "\<forall>c \<in> set (main_calls @ slug_calls ''x''). fw_never_throws c = None"
    by (simp add: fw_never_throws_def)
  have t: "map (fw_throws_on (RevalidateTag ''articles'') ''tag store down'')
             [RevalidatePath ''/'', RevalidatePath ''/news''] = [None, None]
           \<and> fw_throws_on (RevalidateTag ''articles'') ''tag store down'' (RevalidateTag ''articles'')
               = Some ''tag store down''"
    by (simp add: fw_throws_on_def)
  have split: "[RevalidatePath ''/'', RevalidatePath ''/news'', RevalidateTag ''articles'',
                RevalidateTag ''home'', RevalidatePath (''/news/'' @ ''x''),
                RevalidateTag (''article-'' @ ''x'')]
               = [RevalidatePath ''/'', RevalidatePath ''/news''] @ RevalidateTag ''articles''
                 # [RevalidateTag ''home'', RevalidatePath (''/news/'' @ ''x''),
                    RevalidateTag (''article-'' @ ''x'')]"
    by simp
  have b: "\<forall>b \<in> set [RevalidatePath ''/'', RevalidatePath ''/news''].
             fw_throws_on (RevalidateTag ''articles'') ''tag store down'' b = None"
    by (simp add: fw_throws_on_def)
  note th = webhook_POST_article_event [of env_production
        "webhook_request_for ''entry.publish'' ''article'' ''x''"
        "\<lparr> event = Some ''entry.publish'', model = Some ''article'',
           entry = Some \<lparr> entry_slug = Some ''x'' \<rparr>, other_keys = 0 \<rparr>"
        "''entry.publish''" "\<lparr> entry_slug = Some ''x'' \<rparr>" "''x''"]
  have hyps: "json_body (webhook_request_for ''entry.publish'' ''article'' ''x'')
               = Inr \<lparr> event = Some ''entry.publish'', model = Some ''article'',
                       entry = Some \<lparr> entry_slug = Some ''x'' \<rparr>, other_keys = 0 \<rparr>"
    by (simp add: webhook_request_for_def)
  have ok: "field (fst (webhook_POST env_production fw_never_throws
                    (webhook_request_for ''entry.publish'' ''article'' ''x''))) ''paths''
              = Some (JArr [JStr ''/'', JStr ''/news'', JStr ''/news/x''])
            \<and> field (fst (webhook_POST env_production fw_never_throws
                    (webhook_request_for ''entry.publish'' ''article'' ''x''))) ''revalidated''
              = Some (JBool True)"
    using th [of fw_never_throws, OF v p hyps] f by simp
  have ko: "status (fst (webhook_POST env_production
                     (fw_throws_on (RevalidateTag ''articles'') ''tag store down'')
                     (webhook_request_for ''entry.publish'' ''article'' ''x''))) = 500
            \<and> field (fst (webhook_POST env_production
                    (fw_throws_on (RevalidateTag ''articles'') ''tag store down'')
                    (webhook_request_for ''entry.publish'' ''article'' ''x''))) ''details''
                = Some (JStr ''tag store down'')
            \<and> snd (webhook_POST env_production
                    (fw_throws_on (RevalidateTag ''articles'') ''tag store down'')
                    (webhook_request_for ''entry.publish'' ''article'' ''x''))
                = [RevalidatePath ''/'', RevalidatePath ''/news'']"
    using th [of "fw_throws_on (RevalidateTag ''articles'') ''tag store down''"
                "[RevalidatePath ''/'', RevalidatePath ''/news'']" "RevalidateTag ''articles''"
                "[RevalidateTag ''home'', RevalidatePath (''/news/'' @ ''x''),
                  RevalidateTag (''article-'' @ ''x'')]" "''tag store down''", OF v p hyps]
      split b t
    by simp
  show ?thesis
    using v p m t ok ko by simp
qed

text \<open>
  Claim C6. Outside development mode, for a request that passes \<open>validateWebhook\<close> and
  whose body has a model other than \<^verbatim>\<open>article\<close> and \<^verbatim>\<open>articles\<close>, the response is 200
  with \<^verbatim>\<open>success: true\<close> and the message that no revalidation is needed, and no call to
  \<^verbatim>\<open>revalidatePath\<close> or \<^verbatim>\<open>revalidateTag\<close> is made.
\<close>

theorem webhook_POST_other_model:
  assumes "validateWebhook e request" and "NODE_ENV e \<noteq> Some ''development''"
    and "json_body request = Inr b"
    and "model b \<noteq> Some ''article''" and "model b \<noteq> Some ''articles''"
  shows "webhook_POST e fw request =
           (json_response
              [(''success'', JBool True), (''message'', JStr no_requiere_revalidacion)] 200,
            [])"
proof -
  have "webhook_POST e fw request = process_body e fw b"
    using assms(1,3) by (rule webhook_POST_parsed)
  then show ?thesis
    using assms(2,4,5) by (simp add: process_body_def is_development_def)
qed

theorem webhook_POST_other_model_witness:
  "validateWebhook env_production (webhook_request_for ''entry.publish'' ''page'' ''x'')
   \<and> NODE_ENV env_production \<noteq> Some ''development''
   \<and> status (fst (webhook_POST env_production fw_never_throws
                     (webhook_request_for ''entry.publish'' ''page'' ''x''))) = 200
   \<and> field (fst (webhook_POST env_production fw_never_throws
                    (webhook_request_for ''entry.publish'' ''page'' ''x''))) ''success''
       = Some (JBool True)
   \<and> snd (webhook_POST env_production fw_never_throws
             (webhook_request_for ''entry.publish'' ''page'' ''x'')) = []"
proof -
  have v: "validateWebhook env_production (webhook_request_for ''entry.publish'' ''page'' ''x'')"
    by (rule validate_fixture)
  have p: "NODE_ENV env_production \<noteq> Some ''development''"
    by (simp add: env_production_def)
  show ?thesis
    using v p
      webhook_POST_other_model [of env_production
        "webhook_request_for ''entry.publish'' ''page'' ''x''"
        "\<lparr> event = Some ''entry.publish'', model = Some ''page'',
           entry = Some \<lparr> entry_slug = Some ''x'' \<rparr>, other_keys = 0 \<rparr>" fw_never_throws]
    by (simp add: webhook_request_for_def json_response_def field_def)
qed

section \<open>Properties of the upload script\<close>

lemma attempt_in_order_append:
  "attempt_in_order store (xs @ ys) =
     (case attempt_in_order store xs of
        (Some err, attempted) \<Rightarrow> (Some err, attempted)
      | (None, attempted) \<Rightarrow>
          (case attempt_in_order store ys of (r, attempted') \<Rightarrow> (r, attempted @ attempted')))"
  by (induction xs) (auto split: option.splits prod.splits)

lemma uploadDirectoryToS3_in_order:
  "uploadDirectoryToS3 mime_lookup store cfg directory files =
     attempt_in_order store (uploads_of mime_lookup cfg directory files)"
proof (induction mime_lookup store cfg directory files rule: uploadDirectoryToS3.induct)
  case (1 mime_lookup store cfg directory)
  show ?case by simp
next
  case (2 mime_lookup store cfg directory name sub files)
  then show ?case
    by (auto simp: attempt_in_order_append split: option.splits prod.splits)
next
  case (3 mime_lookup store cfg directory name fileContent files)
  then show ?case
    by (auto simp: uploadFileToS3_def upload_entry_def Let_def split: option.splits prod.splits)
qed

lemma attempt_in_order_first_failure:
  assumes "\<forall>q \<in> set before. store q = None" and "store p = Some err"
  shows "attempt_in_order store (before @ p # after) = (Some err, before @ [p])"
  using assms by (induction before) auto

lemma sample_uploads:
  "uploads_of sample_mime sample_config [] sample_listing =
     [upload_entry sample_mime sample_config [] ''about.html'' ''<html></html>'']
     @ upload_entry sample_mime sample_config [''img''] ''logo.png'' ''PNG''
     # [upload_entry sample_mime sample_config [] ''index.html'' ''<html></html>'']"
  by (simp add: sample_listing_def)

text \<open>\<^verbatim>\<open>path.join\<close> on some arguments, as Node computes it.\<close>

lemma path_join_examples:
  "path_join [''site/'', ''about.html''] = ''site/about.html''"
  "path_join [[], ''img/logo.png''] = ''img/logo.png''"
  "path_join [''/x/'', ''../a''] = ''/a''"
  "path_join [''a/'', ''../''] = ''./''"
  "path_join [''../..'', ''../a/./b//c/''] = ''../../../a/b/c/''"
  by (simp_all add: path_join_def path_normalize_def starts_with_slash_def Let_def)

lemma sample_keys:
  "s3Key_of sample_config [''about.html''] = ''site/about.html''"
  "s3Key_of sample_config [''img'', ''logo.png''] = ''site/img/logo.png''"
  "s3Key_of sample_config [''index.html''] = ''site/index.html''"
  by (simp_all add: s3Key_of_def sample_config_def path_join_def path_normalize_def
      starts_with_slash_def Let_def)

lemma Key_upload_entry:
  "Key (upload_entry mime_lookup cfg directory file fileContent) = s3Key_of cfg (directory @ [file])"
  by (simp add: upload_entry_def upload_params_for_def Let_def)

lemma prefix_string_includes: "prefix t s \<Longrightarrow> string_includes s t"
  by (cases s) auto

text \<open>
  Claim C5, as the code has it. The \<^verbatim>\<open>catch\<close> of \<open>uploadFileToS3\<close> logs the error and
  throws it again, and the loop of \<open>uploadDirectoryToS3\<close> has no \<^verbatim>\<open>try\<close>. The export
  directory holds \<^verbatim>\<open>about.html\<close>, \<^verbatim>\<open>img/logo.png\<close> and \<^verbatim>\<open>index.html\<close>, listed in this
  order, and the store rejects the key of \<^verbatim>\<open>about.html\<close> alone: that upload is the only
  one attempted, \<^verbatim>\<open>img/logo.png\<close> and \<^verbatim>\<open>index.html\<close> are never attempted, and the error
  leaves the function.
\<close>

theorem upload_batch_counterexample:
  "store_rejects ''site/about.html'' ''AccessDenied''
     (upload_entry sample_mime sample_config [''img''] ''logo.png'' ''PNG'') = None
   \<and> store_rejects ''site/about.html'' ''AccessDenied''
       (upload_entry sample_mime sample_config [] ''index.html'' ''<html></html>'') = None
   \<and> map Key (uploads_of sample_mime sample_config [] sample_listing)
       = [''site/about.html'', ''site/img/logo.png'', ''site/index.html'']
   \<and> map Key (snd (uploadDirectoryToS3 sample_mime
                     (store_rejects ''site/about.html'' ''AccessDenied'') sample_config []
                     sample_listing)) = [''site/about.html'']
   \<and> ''site/img/logo.png'' \<notin> set (map Key (snd (uploadDirectoryToS3 sample_mime
                     (store_rejects ''site/about.html'' ''AccessDenied'') sample_config []
                     sample_listing)))
   \<and> ''site/index.html'' \<notin> set (map Key (snd (uploadDirectoryToS3 sample_mime
                     (store_rejects ''site/about.html'' ''AccessDenied'') sample_config []
                     sample_listing)))
   \<and> fst (uploadDirectoryToS3 sample_mime (store_rejects ''site/about.html'' ''AccessDenied'')
            sample_config [] sample_listing) = Some ''AccessDenied''"
  by (simp add: sample_listing_def uploadFileToS3_def Let_def store_rejects_def Key_upload_entry
      sample_keys upload_params_for_def)

text \<open>
  Claim C5, amended. Each upload has its own \<^verbatim>\<open>try\<close>/\<^verbatim>\<open>catch\<close>, which logs and rethrows:
  the first upload that fails ends the batch. When the store accepts the uploads
  \<open>before\<close> and rejects \<open>p\<close>, which comes next in the order of the listing, the uploads
  attempted are \<open>before\<close> and \<open>p\<close> and no other, and the error of \<open>p\<close> is thrown to the
  caller; the files after \<open>p\<close> are not attempted.
\<close>

theorem upload_batch_stops_at_first_failure:
  assumes "uploads_of mime_lookup cfg directory files = before @ p # after"
    and "\<forall>q \<in> set before. store q = None" and "store p = Some err"
  shows "uploadDirectoryToS3 mime_lookup store cfg directory files = (Some err, before @ [p])"
  using assms by (simp add: uploadDirectoryToS3_in_order attempt_in_order_first_failure)

theorem upload_batch_stops_at_first_failure_witness:
  "store_rejects ''site/img/logo.png'' ''AccessDenied''
     (upload_entry sample_mime sample_config [] ''about.html'' ''<html></html>'') = None
   \<and> store_rejects ''site/img/logo.png'' ''AccessDenied''
       (upload_entry sample_mime sample_config [''img''] ''logo.png'' ''PNG'') = Some ''AccessDenied''
   \<and> uploadDirectoryToS3 sample_mime (store_rejects ''site/img/logo.png'' ''AccessDenied'')
       sample_config [] sample_listing =
     (Some ''AccessDenied'',
      [upload_entry sample_mime sample_config [] ''about.html'' ''<html></html>'',
       upload_entry sample_mime sample_config [''img''] ''logo.png'' ''PNG''])"
proof -
  have a: "store_rejects ''site/img/logo.png'' ''AccessDenied''
     (upload_entry sample_mime sample_config [] ''about.html'' ''<html></html>'') = None"
    by (simp add: store_rejects_def Key_upload_entry sample_keys)
  have r: "store_rejects ''site/img/logo.png'' ''AccessDenied''
     (upload_entry sample_mime sample_config [''img''] ''logo.png'' ''PNG'') = Some ''AccessDenied''"
    by (simp add: store_rejects_def Key_upload_entry sample_keys)
  have b: "\<forall>q \<in> set [upload_entry sample_mime sample_config [] ''about.html'' ''<html></html>''].
             store_rejects ''site/img/logo.png'' ''AccessDenied'' q = None"
    using a by simp
  show ?thesis
    using a r upload_batch_stops_at_first_failure [OF sample_uploads b r] by simp
qed

text \<open>
  Claim C7. A file whose content type is \<^verbatim>\<open>text/html\<close> (what \<^verbatim>\<open>mime.lookup\<close> gives for
  the extension \<^verbatim>\<open>.html\<close>) is uploaded with the policy
  \<^verbatim>\<open>public, max-age=0, must-revalidate\<close>, and a file whose content type is an image type,
  one that starts with \<^verbatim>\<open>image/\<close>, with \<^verbatim>\<open>public, max-age=31536000, immutable\<close>.
\<close>

theorem cache_control_html_and_images:
  "(mime_lookup filePath = Some ''text/html'' \<longrightarrow>
      map CacheControl (snd (uploadFileToS3 mime_lookup store cfg filePath fileContent s3Key))
        = [''public, max-age=0, must-revalidate''])
   \<and> (mime_lookup filePath = Some t \<and> prefix ''image/'' t \<longrightarrow>
        map CacheControl (snd (uploadFileToS3 mime_lookup store cfg filePath fileContent s3Key))
          = [''public, max-age=31536000, immutable''])"
proof -
  have "prefix ''image/'' t \<Longrightarrow> t \<noteq> []" by auto
  then show ?thesis
    by (auto simp: uploadFileToS3_def upload_params_for_def Let_def or_default_def
        prefix_string_includes)
qed

theorem cache_control_html_and_images_witness:
  "sample_mime ''/app/out/index.html'' = Some ''text/html''
   \<and> sample_mime ''/app/out/img/logo.png'' = Some ''image/png'' \<and> prefix ''image/'' ''image/png''
   \<and> map CacheControl (snd (uploadFileToS3 sample_mime (store_rejects [] []) sample_config
        ''/app/out/index.html'' ''<html></html>'' ''index.html''))
       = [''public, max-age=0, must-revalidate'']
   \<and> map CacheControl (snd (uploadFileToS3 sample_mime (store_rejects [] []) sample_config
        ''/app/out/img/logo.png'' ''PNG'' ''img/logo.png''))
       = [''public, max-age=31536000, immutable'']"
proof -
  have h: "sample_mime ''/app/out/index.html'' = Some ''text/html''"
    by (simp add: sample_mime_def suffix_to_prefix)
  have i: "sample_mime ''/app/out/img/logo.png'' = Some ''image/png'' \<and> prefix ''image/'' ''image/png''"
    by (simp add: sample_mime_def suffix_to_prefix)
  show ?thesis
    using h i
      cache_control_html_and_images [of sample_mime "''/app/out/index.html''" "store_rejects [] []"
        sample_config "''<html></html>''" "''index.html''"]
      cache_control_html_and_images [of sample_mime "''/app/out/img/logo.png''" "store_rejects [] []"
        sample_config "''PNG''" "''img/logo.png''" "''image/png''"]
    by simp
qed

section \<open>Properties of the article mapping\<close>

text \<open>\<open>fetchArticles\<close> catches whatever its body throws.\<close>

lemma fetchArticles_never_throws:
  "\<exists>articles. fetchArticles STRAPI_URL fetch = Inr articles"
  by (simp add: fetchArticles_def split: sum.splits)

text \<open>
  The cover URL is never empty: it is the first non-empty URL the CMS gives, the
  placeholder otherwise.
\<close>

lemma cover_url_defaulting:
  "url (cover (map_article a)) \<noteq> []"
  "url (cover (map_article_by_slug a)) \<noteq> []"
  "raw_cover a = Some c \<Longrightarrow> cover_url c = Some u \<Longrightarrow> u \<noteq> [] \<Longrightarrow> url (cover (map_article a)) = u"
  "raw_cover a = Some c \<Longrightarrow> cover_url c = Some u \<Longrightarrow> u \<noteq> [] \<Longrightarrow>
     url (cover (map_article_by_slug a)) = u"
  "raw_cover a = None \<Longrightarrow> url (cover (map_article a)) = ''/placeholder.jpg''"
  "raw_cover a = None \<Longrightarrow> url (cover (map_article_by_slug a)) = ''/placeholder.jpg''"
  by (auto simp: map_article_def map_article_by_slug_def or_default_def js_or_def truthy_def
      split: option.splits)

text \<open>
  Claim C8. When the CMS answers with an empty \<^verbatim>\<open>data\<close> array, \<open>fetchArticles\<close> returns
  the empty array and throws nothing; when the response is \<^verbatim>\<open>ok\<close>, the empty array is
  the result of the mapping itself, not of the \<^verbatim>\<open>catch\<close>.
\<close>

theorem fetchArticles_empty_data:
  assumes "fetch (STRAPI_URL @ ''/api/articles?populate=*'') = Some response"
    and "cms_json response = Data (Array [])"
  shows "fetchArticles STRAPI_URL fetch = Inr []
         \<and> (ok response \<longrightarrow> fetchArticles_try STRAPI_URL fetch = Inr [])"
  using assms by (simp add: fetchArticles_def fetchArticles_try_def)

theorem fetchArticles_empty_data_witness:
  "fetch_always (cms_ok_with []) (''http://localhost:1337'' @ ''/api/articles?populate=*'')
     = Some (cms_ok_with [])
   \<and> cms_json (cms_ok_with []) = Data (Array []) \<and> ok (cms_ok_with [])
   \<and> fetchArticles ''http://localhost:1337'' (fetch_always (cms_ok_with [])) = Inr []
   \<and> fetchArticles_try ''http://localhost:1337'' (fetch_always (cms_ok_with [])) = Inr []"
proof -
  have f: "fetch_always (cms_ok_with []) (''http://localhost:1337'' @ ''/api/articles?populate=*'')
     = Some (cms_ok_with [])"
    by (simp add: fetch_always_def)
  have d: "cms_json (cms_ok_with []) = Data (Array [])"
    by (simp add: cms_ok_with_def)
  have k: "ok (cms_ok_with [])"
    by (simp add: cms_ok_with_def)
  show ?thesis
    using f d k
      fetchArticles_empty_data [of "fetch_always (cms_ok_with [])" "''http://localhost:1337''"
        "cms_ok_with []"]
    by simp
qed

text \<open>
  Claim C9, at an input where the code departs from it. \<open>fetchArticleBySlug\<close> tests
  \<^verbatim>\<open>article.category?.data\<close> and then copies \<^verbatim>\<open>id\<close>, \<^verbatim>\<open>name\<close> and \<^verbatim>\<open>slug\<close> from
  \<^verbatim>\<open>article.category\<close> itself. For a category in the nested shape, which has \<^verbatim>\<open>data\<close>
  and no fields of its own, the article returned has a category that is not \<^verbatim>\<open>null\<close> and
  whose three fields are all \<^verbatim>\<open>undefined\<close>.
\<close>

theorem fetchArticleBySlug_nested_category:
  "fetchArticleBySlug ''http://localhost:1337'' (fetch_always (cms_ok_with [nested_category_article]))
     ''x'' =
   Inr (Some \<lparr> article_id = Some ''7'', title = Some ''Title'', description = None,
               article_slug = Some ''x'', content = None,
               publishedAt = NewDate (Some ''2024-01-01T00:00:00.000Z''),
               cover = \<lparr> url = ''/uploads/c.jpg'' \<rparr>,
               category = Some \<lparr> category_id = None, category_name = None,
                                 category_slug = None \<rparr> \<rparr>)"
  by (simp add: fetchArticleBySlug_def fetchArticleBySlug_try_def fetch_always_def cms_ok_with_def
      map_article_by_slug_def nested_category_article_def copy_category_def or_default_def
      js_or_def truthy_def)

end
